theory Spec2Isabelle
  imports Complex_Main "HOL-Library.Sublist"
begin

section \<open>Cart and order engine of the storefront\<close>

text \<open>
  A shallow embedding of \<^verbatim>\<open>server/models/Product.js\<close>, \<^verbatim>\<open>server/models/Cart.js\<close>,
  \<^verbatim>\<open>server/models/Order.js\<close> and of the cart and order route handlers (both in
  \<^verbatim>\<open>server/routes/cart.js\<close>).

  Conventions of the embedding.
  \<^item> A JavaScript \<^verbatim>\<open>Number\<close> holding a quantity is an \<open>int\<close>, one holding money is a
    \<open>rat\<close>: arithmetic is exact, rounding of binary floating point is not modelled.
  \<^item> An \<^verbatim>\<open>ObjectId\<close> is a \<open>nat\<close>; a \<^verbatim>\<open>Date\<close> is an \<open>int\<close> (milliseconds); the clock
    value \<^verbatim>\<open>new Date()\<close> and a freshly generated id are parameters.
  \<^item> A field that can be \<^verbatim>\<open>undefined\<close> is an \<open>option\<close>.
  \<^item> A handler returns \<open>Inl e\<close> for a rejected request (the kind of the JSON error
    response) and \<open>Inr\<close> for an accepted one. Persistent state is passed explicitly; a
    request that throws before its \<^verbatim>\<open>save()\<close> completes leaves the stored document as
    it was.
  \<^item> A string is the list of the bytes of its UTF-8 text.
  \<^item> The schema validators run when a document is saved, before the schema's own
    \<^verbatim>\<open>pre('save')\<close> hooks. The numeric \<^verbatim>\<open>min\<close>/\<^verbatim>\<open>max\<close> bounds, the \<^verbatim>\<open>enum\<close> of the
    payment method and the \<^verbatim>\<open>required\<close> paths that a request or a hook has to fill (order
    number, shipping method, addresses) are modelled; the other \<^verbatim>\<open>enum\<close>s are datatypes
    and the other \<^verbatim>\<open>required\<close> paths are carried by the types.
\<close>

type_synonym objectId = nat
type_synonym date = int

datatype error =
    ValidationFailed      \<comment> \<open>400 "Validation failed" (express-validator)\<close>
  | ProductNotFound       \<comment> \<open>404 "Product not found"\<close>
  | ProductUnavailable    \<comment> \<open>400 "Product ... is no longer available" / "is not available"\<close>
  | OutOfStock            \<comment> \<open>400 "out of stock" / "Not enough inventory"\<close>
  | CartItemNotFound      \<comment> \<open>404 "Cart item not found"\<close>
  | InvalidCoupon         \<comment> \<open>400 "Invalid coupon code"\<close>
  | EmptyCart             \<comment> \<open>400 "Cart is empty"\<close>
  | OrderNotFound         \<comment> \<open>404 "Order not found"\<close>
  | NotAuthorized         \<comment> \<open>403\<close>
  | InvalidTransition     \<comment> \<open>400 "Order cannot be cancelled at this stage"\<close>
  | ServerError           \<comment> \<open>500: an exception reached the handler's catch block\<close>

text \<open>What a rejected promise or a failing call throws.\<close>

datatype exn = ValidatorError | TypeError

subsection \<open>Product (models/Product.js)\<close>

datatype product_status = Draft | Active | Inactive | Archived

record product =
  p_price :: rat
  p_status :: product_status
  trackInventory :: bool
  inv_quantity :: int
  allowBackorder :: bool
  totalSold :: int
  totalRevenue :: rat

definition isInStock :: "product \<Rightarrow> int \<Rightarrow> bool" where
  "isInStock p quantity =
     (if \<not> trackInventory p then True
      else if inv_quantity p \<ge> quantity then True
      else if allowBackorder p then True
      else False)"

text \<open>
  \<^verbatim>\<open>Product.findByIdAndUpdate(id, {$inc: {...}})\<close>: adds the three increments to the stored
  product; a missing id updates nothing. Update validators are off by default, so the
  \<^verbatim>\<open>min: 0\<close> of \<^verbatim>\<open>inventory.quantity\<close> is not enforced here.
\<close>

definition findByIdAndUpdate_inc ::
  "objectId \<Rightarrow> int \<Rightarrow> int \<Rightarrow> rat \<Rightarrow> (objectId \<rightharpoonup> product) \<Rightarrow> (objectId \<rightharpoonup> product)" where
  "findByIdAndUpdate_inc pid dq dsold drev ps =
     (case ps pid of
        None \<Rightarrow> ps
      | Some p \<Rightarrow> ps(pid \<mapsto> p\<lparr>inv_quantity := inv_quantity p + dq,
                              totalSold := totalSold p + dsold,
                              totalRevenue := totalRevenue p + drev\<rparr>))"

subsection \<open>Order (models/Order.js)\<close>

text \<open>
  A variant as the schemas declare it. An option stored in a document is a subdocument and
  carries a generated \<^verbatim>\<open>_id\<close>; an option of a request usually has none.
\<close>

record variant_option =
  vo_name :: "string option"
  vo_value :: "string option"
  vo_id :: "objectId option"

record variant =
  v_name :: "string option"
  v_options :: "variant_option list"

datatype order_status =
  Pending | Confirmed | Processing | Shipped | Delivered | Cancelled | Refunded

datatype coupon_type = Percentage | Fixed

fun status_name :: "order_status \<Rightarrow> string" where
  "status_name Pending = ''pending''"
| "status_name Confirmed = ''confirmed''"
| "status_name Processing = ''processing''"
| "status_name Shipped = ''shipped''"
| "status_name Delivered = ''delivered''"
| "status_name Cancelled = ''cancelled''"
| "status_name Refunded = ''refunded''"

record orderItem =
  oi_product :: objectId
  oi_variant :: variant
  oi_quantity :: int
  oi_price :: rat
  oi_total :: rat

record timeline_entry =
  te_status :: order_status
  te_timestamp :: date
  te_note :: "string option"
  te_updatedBy :: "objectId option"

text \<open>
  An order document. \<open>isNew\<close> and \<open>statusModified\<close> are the change tracking of the
  in-memory document (\<^verbatim>\<open>this.isNew\<close>, \<^verbatim>\<open>this.isModified('status')\<close>): assigning a path
  a value different from the one it holds marks it modified, and a completed save resets both.
\<close>

record order =
  orderNumber :: "string option"
  customer :: objectId
  o_items :: "orderItem list"
  o_subtotal :: rat
  o_tax_amount :: rat
  o_tax_rate :: rat
  o_shipping_method :: string
  o_shipping_cost :: rat
  o_addresses_present :: bool
  o_payment_method :: string
  o_payment_amount :: rat
  o_discount_code :: "string option"
  o_discount_amount :: rat
  o_discount_type :: coupon_type
  o_total :: rat
  o_status :: order_status
  timeline :: "timeline_entry list"
  isNew :: bool
  statusModified :: bool

fun digit_char :: "nat \<Rightarrow> char" where
  "digit_char n = char_of (48 + n)"

fun decimal :: "nat \<Rightarrow> string" where
  "decimal n = (if n < 10 then [digit_char n] else decimal (n div 10) @ [digit_char (n mod 10)])"

definition padStart :: "nat \<Rightarrow> char \<Rightarrow> string \<Rightarrow> string" where
  "padStart w c s = replicate (w - length s) c @ s"

definition payment_methods :: "string list" where
  "payment_methods = [''credit_card'', ''debit_card'', ''paypal'', ''apple_pay'', ''google_pay'',
     ''bank_transfer'', ''cash_on_delivery'']"

definition orderItem_valid :: "orderItem \<Rightarrow> bool" where
  "orderItem_valid i \<longleftrightarrow> 1 \<le> oi_quantity i \<and> 0 \<le> oi_price i \<and> 0 \<le> oi_total i"

text \<open>
  The validators of \<^verbatim>\<open>orderSchema\<close>. \<open>o_addresses_present\<close> stands for the required
  paths of the shipping and billing address. A required string has to be present and not
  empty.
\<close>

definition order_valid :: "order \<Rightarrow> bool" where
  "order_valid d \<longleftrightarrow>
     orderNumber d \<noteq> None \<and> orderNumber d \<noteq> Some [] \<and>
     list_all orderItem_valid (o_items d) \<and> 0 \<le> o_subtotal d \<and> 0 \<le> o_tax_amount d \<and>
     0 \<le> o_tax_rate d \<and> o_shipping_method d \<noteq> [] \<and> 0 \<le> o_shipping_cost d \<and>
     o_addresses_present d \<and> 0 \<le> o_total d \<and>
     o_payment_method d \<in> set payment_methods"

text \<open>
  \<^verbatim>\<open>orderSchema.pre('save')\<close>; \<open>count\<close> is \<^verbatim>\<open>countDocuments()\<close>.
\<close>

definition pre_save :: "nat \<Rightarrow> date \<Rightarrow> order \<Rightarrow> order" where
  "pre_save count now d =
     (let d1 = (if isNew d \<and> (orderNumber d = None \<or> orderNumber d = Some [])
                then d\<lparr>orderNumber := Some (''ORD-'' @ padStart 6 (CHR ''0'') (decimal (count + 1)))\<rparr>
                else d)
      in if statusModified d1 \<and> \<not> isNew d1
         then d1\<lparr>timeline := timeline d1 @
                  [\<lparr>te_status = o_status d1, te_timestamp = now,
                    te_note = Some (''Status changed to '' @ status_name (o_status d1)),
                    te_updatedBy = None\<rparr>]\<rparr>
         else d1)"

text \<open>
  \<^verbatim>\<open>order.save()\<close>: validation, then the pre-save hook, then the document is stored. The
  document is validated as it is before the hook runs, so an order number that only the
  hook would generate is still missing when \<^verbatim>\<open>required\<close> is checked.
\<close>

definition order_save :: "nat \<Rightarrow> date \<Rightarrow> order \<Rightarrow> exn + order" where
  "order_save count now d =
     (if order_valid d
      then Inr ((pre_save count now d)\<lparr>isNew := False, statusModified := False\<rparr>)
      else Inl ValidatorError)"

definition updateStatus :: "order_status \<Rightarrow> string \<Rightarrow> objectId option \<Rightarrow> date \<Rightarrow> order \<Rightarrow> order" where
  "updateStatus newStatus note updatedBy now d =
     d\<lparr>o_status := newStatus,
       statusModified := (statusModified d \<or> newStatus \<noteq> o_status d),
       timeline := timeline d @
         [\<lparr>te_status = newStatus, te_timestamp = now, te_note = Some note,
           te_updatedBy = updatedBy\<rparr>]\<rparr>"


declare decimal.simps [simp del]

subsection \<open>Cart (models/Cart.js)\<close>

text \<open>
  The \<^verbatim>\<open>product\<close> path of a cart line in a document in memory: the id itself, as stored and
  as \<^verbatim>\<open>push\<close> casts it; after \<^verbatim>\<open>populate('items.product')\<close> the product's document, or
  \<^verbatim>\<open>null\<close> when no product with that id is stored any more. All three remember the id.
\<close>

datatype product_ref = ObjectId objectId | Populated objectId | Missing objectId

fun ref_id :: "product_ref \<Rightarrow> objectId" where
  "ref_id (ObjectId p) = p"
| "ref_id (Populated p) = p"
| "ref_id (Missing p) = p"

text \<open>
  \<^verbatim>\<open>toString()\<close> of such a value, and of the id string of a request: an id gives its 24
  hexadecimal digits; a document gives the text that \<^verbatim>\<open>inspect\<close> prints for it, which is
  never an id's text and is the same for two documents of one product; \<^verbatim>\<open>null\<close> has no
  method, so the call throws.
\<close>

datatype ref_text = IdText objectId | InspectText objectId

fun ref_toString :: "product_ref \<Rightarrow> exn + ref_text" where
  "ref_toString (ObjectId p) = Inr (IdText p)"
| "ref_toString (Populated p) = Inr (InspectText p)"
| "ref_toString (Missing p) = Inl TypeError"

record cartItem =
  ci_id :: objectId
  ci_product :: product_ref
  ci_variant :: variant
  ci_quantity :: int
  ci_price :: rat
  addedAt :: date

record coupon_rec =
  code :: "string option"
  discount :: "rat option"
  c_type :: "coupon_type option"
  appliedAt :: "date option"
  c_expiresAt :: "date option"

record cart =
  user :: objectId
  items :: "cartItem list"
  coupon :: coupon_rec
  shippingMethod :: string
  shippingCost :: rat
  tax_amount :: rat
  tax_rate :: rat
  expiresAt :: date

text \<open>The object \<^verbatim>\<open>{}\<close> assigned to \<^verbatim>\<open>this.coupon\<close>: every path undefined.\<close>

definition empty_coupon :: coupon_rec where
  "empty_coupon = \<lparr>code = None, discount = None, c_type = None, appliedAt = None,
     c_expiresAt = None\<rparr>"

text \<open>\<^verbatim>\<open>new Cart({ user: userId })\<close> with the schema defaults.\<close>

definition new_cart :: "objectId \<Rightarrow> date \<Rightarrow> cart" where
  "new_cart userId now =
     \<lparr>user = userId, items = [],
      coupon = \<lparr>code = None, discount = Some 0, c_type = Some Fixed, appliedAt = None,
                 c_expiresAt = None\<rparr>,
      shippingMethod = ''standard'', shippingCost = 0, tax_amount = 0, tax_rate = 0,
      expiresAt = now + 30 * 24 * 60 * 60 * 1000\<rparr>"

definition subtotal :: "cart \<Rightarrow> rat" where
  "subtotal c = foldl (\<lambda>sum item. sum + ci_price item * of_int (ci_quantity item)) 0 (items c)"

definition total :: "cart \<Rightarrow> rat" where
  "total c =
     (let st = subtotal c;
          d = (case discount (coupon c) of None \<Rightarrow> 0 | Some x \<Rightarrow> x);
          discountAmount = (if c_type (coupon c) = Some Percentage then (st * d) / 100 else d)
      in st + shippingCost c + tax_amount c - discountAmount)"

definition itemCount :: "cart \<Rightarrow> int" where
  "itemCount c = foldl (\<lambda>sum item. sum + ci_quantity item) 0 (items c)"

text \<open>
  The line test of \<^verbatim>\<open>addItem\<close>, \<^verbatim>\<open>updateItemQuantity\<close> and \<^verbatim>\<open>removeItem\<close>:
  \<^verbatim>\<open>item.product.toString() === productId.toString() &&
  JSON.stringify(item.variant) === JSON.stringify(variant)\<close>.
  The left \<^verbatim>\<open>toString\<close> is called first, and either call throws on \<^verbatim>\<open>null\<close>. The
  \<^verbatim>\<open>variant\<close> of a stored line is a nested path and always an object, while the argument
  may be \<^verbatim>\<open>undefined\<close> (\<open>None\<close>), whose \<^verbatim>\<open>JSON.stringify\<close> is no string at all. Two variants
  written in the schema's shape have the same JSON text exactly when they are equal, the
  \<^verbatim>\<open>_id\<close>s of their options included.
\<close>

definition same_line :: "product_ref \<Rightarrow> variant option \<Rightarrow> cartItem \<Rightarrow> exn + bool" where
  "same_line productId v item =
     (case ref_toString (ci_product item) of
        Inl e \<Rightarrow> Inl e
      | Inr a \<Rightarrow>
          (case ref_toString productId of
             Inl e \<Rightarrow> Inl e
           | Inr b \<Rightarrow> Inr (a = b \<and> Some (ci_variant item) = v)))"

text \<open>
  \<^verbatim>\<open>Array.prototype.findIndex\<close> and \<^verbatim>\<open>find\<close> with a callback that may throw: the callback
  runs on the elements in order up to the first match; \<open>None\<close> is the result \<^verbatim>\<open>-1\<close>
  (\<^verbatim>\<open>undefined\<close> for \<^verbatim>\<open>find\<close>).
\<close>

fun findIndex :: "('a \<Rightarrow> exn + bool) \<Rightarrow> 'a list \<Rightarrow> exn + nat option" where
  "findIndex P [] = Inr None"
| "findIndex P (x # xs) =
     (case P x of
        Inl e \<Rightarrow> Inl e
      | Inr True \<Rightarrow> Inr (Some 0)
      | Inr False \<Rightarrow>
          (case findIndex P xs of
             Inl e \<Rightarrow> Inl e
           | Inr None \<Rightarrow> Inr None
           | Inr (Some i) \<Rightarrow> Inr (Some (Suc i))))"

text \<open>
  \<^verbatim>\<open>Array.prototype.filter\<close> with the callback \<^verbatim>\<open>item => !(test)\<close>: the callback runs on
  every element, and the elements that pass the test are left out.
\<close>

fun filter_out :: "('a \<Rightarrow> exn + bool) \<Rightarrow> 'a list \<Rightarrow> exn + 'a list" where
  "filter_out P [] = Inr []"
| "filter_out P (x # xs) =
     (case P x of
        Inl e \<Rightarrow> Inl e
      | Inr b \<Rightarrow>
          (case filter_out P xs of
             Inl e \<Rightarrow> Inl e
           | Inr ys \<Rightarrow> Inr (if b then ys else x # ys)))"

definition cartItem_valid :: "cartItem \<Rightarrow> bool" where
  "cartItem_valid item \<longleftrightarrow> 1 \<le> ci_quantity item \<and> ci_quantity item \<le> 100 \<and> 0 \<le> ci_price item"

text \<open>
  \<^verbatim>\<open>this.save()\<close> on a cart: the validators of \<^verbatim>\<open>cartItemSchema\<close>, then the store. For a
  populated reference, also one that populated to \<^verbatim>\<open>null\<close>, the \<^verbatim>\<open>required\<close> validator reads
  the id the line was loaded with, so it holds of every line.
\<close>

definition cart_save :: "cart \<Rightarrow> exn + cart" where
  "cart_save c = (if list_all cartItem_valid (items c) then Inr c else Inl ValidatorError)"

text \<open>
  A request's variant as \<^verbatim>\<open>push\<close> stores it in a new line: \<^verbatim>\<open>undefined\<close> becomes the object
  with an empty list of options, and an option without \<^verbatim>\<open>_id\<close> gets a generated one.
  \<open>fresh\<close> generates the ids: \<open>fresh 0\<close> for the line, \<open>fresh (i + 1)\<close> for option \<open>i\<close>.
\<close>

definition cast_variant :: "(nat \<Rightarrow> objectId) \<Rightarrow> variant option \<Rightarrow> variant" where
  "cast_variant fresh v =
     (case v of
        None \<Rightarrow> \<lparr>v_name = None, v_options = []\<rparr>
      | Some r \<Rightarrow>
          r\<lparr>v_options :=
              map (\<lambda>(i, opt). case vo_id opt of
                                 Some _ \<Rightarrow> opt
                               | None \<Rightarrow> opt\<lparr>vo_id := Some (fresh (Suc i))\<rparr>)
                  (enumerate 0 (v_options r))\<rparr>)"

text \<open>
  Each method changes the document in memory and returns \<^verbatim>\<open>this.save()\<close>. The change
  (\<open>_doc\<close>) and the method are defined apart; the change throws when its line test does.
  \<open>productId\<close> of \<open>addItem\<close> is the id string of the request.
\<close>

definition addItem_doc ::
  "objectId \<Rightarrow> variant option \<Rightarrow> int \<Rightarrow> rat \<Rightarrow> (nat \<Rightarrow> objectId) \<Rightarrow> date \<Rightarrow> cart \<Rightarrow> exn + cart" where
  "addItem_doc productId v quantity price fresh now c =
     (case findIndex (same_line (ObjectId productId) v) (items c) of
        Inl e \<Rightarrow> Inl e
      | Inr (Some i) \<Rightarrow>
          Inr (c\<lparr>items := (items c)[i := (items c ! i)
                 \<lparr>ci_quantity := ci_quantity (items c ! i) + quantity, addedAt := now\<rparr>]\<rparr>)
      | Inr None \<Rightarrow>
          Inr (c\<lparr>items := items c @
                 [\<lparr>ci_id = fresh 0, ci_product = ObjectId productId,
                   ci_variant = cast_variant fresh v, ci_quantity = quantity, ci_price = price,
                   addedAt = now\<rparr>]\<rparr>))"

definition addItem ::
  "objectId \<Rightarrow> variant option \<Rightarrow> int \<Rightarrow> rat \<Rightarrow> (nat \<Rightarrow> objectId) \<Rightarrow> date \<Rightarrow> cart \<Rightarrow> exn + cart" where
  "addItem productId v quantity price fresh now c =
     (case addItem_doc productId v quantity price fresh now c of
        Inl e \<Rightarrow> Inl e
      | Inr d \<Rightarrow> cart_save d)"

definition updateItemQuantity_doc ::
  "product_ref \<Rightarrow> variant option \<Rightarrow> int \<Rightarrow> cart \<Rightarrow> exn + cart" where
  "updateItemQuantity_doc productId v quantity c =
     (case findIndex (same_line productId v) (items c) of
        Inl e \<Rightarrow> Inl e
      | Inr None \<Rightarrow> Inr c
      | Inr (Some i) \<Rightarrow>
          if quantity \<le> 0
          then (case filter_out (same_line productId v) (items c) of
                  Inl e \<Rightarrow> Inl e
                | Inr xs \<Rightarrow> Inr (c\<lparr>items := xs\<rparr>))
          else Inr (c\<lparr>items := (items c)[i := (items c ! i)\<lparr>ci_quantity := quantity\<rparr>]\<rparr>))"

definition updateItemQuantity ::
  "product_ref \<Rightarrow> variant option \<Rightarrow> int \<Rightarrow> cart \<Rightarrow> exn + cart" where
  "updateItemQuantity productId v quantity c =
     (case updateItemQuantity_doc productId v quantity c of
        Inl e \<Rightarrow> Inl e
      | Inr d \<Rightarrow> cart_save d)"

definition removeItem :: "product_ref \<Rightarrow> variant option \<Rightarrow> cart \<Rightarrow> exn + cart" where
  "removeItem productId v c =
     (case filter_out (same_line productId v) (items c) of
        Inl e \<Rightarrow> Inl e
      | Inr xs \<Rightarrow> cart_save (c\<lparr>items := xs\<rparr>))"

definition clear :: "cart \<Rightarrow> exn + cart" where
  "clear c = cart_save (c\<lparr>items := [], coupon := empty_coupon\<rparr>)"

definition applyCoupon ::
  "string \<Rightarrow> rat \<Rightarrow> coupon_type \<Rightarrow> date \<Rightarrow> date \<Rightarrow> cart \<Rightarrow> exn + cart" where
  "applyCoupon couponCode disc ty expires now c =
     cart_save (c\<lparr>coupon := \<lparr>code = Some couponCode, discount = Some disc, c_type = Some ty,
                               appliedAt = Some now, c_expiresAt = Some expires\<rparr>\<rparr>)"

definition removeCoupon :: "cart \<Rightarrow> exn + cart" where
  "removeCoupon c = cart_save (c\<lparr>coupon := empty_coupon\<rparr>)"

subsection \<open>Persistent state and calls into the models\<close>

record store =
  products :: "objectId \<rightharpoonup> product"
  orders :: "(objectId \<times> order) list"
  carts :: "objectId \<rightharpoonup> cart"

text \<open>
  What a call into a model hands back before it is awaited. \<^verbatim>\<open>getOrCreateCart\<close> is
  declared \<^verbatim>\<open>async function\<close>, so a call to it evaluates to a promise of the document.
  \<^verbatim>\<open>populate\<close> is a method of documents and queries; a promise has no such property, and
  calling it throws a \<^verbatim>\<open>TypeError\<close>.
\<close>

datatype 'a js_result = Promise 'a | Document 'a

fun await :: "'a js_result \<Rightarrow> 'a" where
  "await (Promise d) = d"
| "await (Document d) = d"

fun populate :: "'a js_result \<Rightarrow> exn + 'a js_result" where
  "populate (Document d) = Inr (Document d)"
| "populate (Promise d) = Inl TypeError"

text \<open>
  \<^verbatim>\<open>populate('items.product')\<close> on a cart: every line's reference becomes the document of
  the product stored under its id, or \<^verbatim>\<open>null\<close>. A save writes the ids back.
\<close>

definition populate_items :: "(objectId \<rightharpoonup> product) \<Rightarrow> cart \<Rightarrow> cart" where
  "populate_items ps c =
     c\<lparr>items := map (\<lambda>item. item\<lparr>ci_product :=
                        (case ps (ref_id (ci_product item)) of
                           None \<Rightarrow> Missing (ref_id (ci_product item))
                         | Some _ \<Rightarrow> Populated (ref_id (ci_product item)))\<rparr>) (items c)\<rparr>"

definition depopulate :: "cart \<Rightarrow> cart" where
  "depopulate c =
     c\<lparr>items := map (\<lambda>item. item\<lparr>ci_product := ObjectId (ref_id (ci_product item))\<rparr>) (items c)\<rparr>"

text \<open>
  \<^verbatim>\<open>Cart.getOrCreateCart\<close>: the user's cart, found with its lines populated, or a new cart
  that is saved at once.
\<close>

definition getOrCreateCart ::
  "objectId \<Rightarrow> date \<Rightarrow> (objectId \<rightharpoonup> product) \<Rightarrow> (objectId \<rightharpoonup> cart)
     \<Rightarrow> cart js_result \<times> (objectId \<rightharpoonup> cart)" where
  "getOrCreateCart userId now ps cs =
     (case cs userId of
        Some c \<Rightarrow> (Promise (populate_items ps c), cs)
      | None \<Rightarrow> (Promise (new_cart userId now), cs(userId \<mapsto> new_cart userId now)))"

text \<open>A completed \<^verbatim>\<open>save()\<close> of the cart document that was loaded for \<open>userId\<close>.\<close>

definition store_cart :: "objectId \<Rightarrow> cart \<Rightarrow> store \<Rightarrow> store" where
  "store_cart userId c st = st\<lparr>carts := (carts st)(userId \<mapsto> depopulate c)\<rparr>"

subsection \<open>Strings of the request\<close>

text \<open>
  The sanitizer \<^verbatim>\<open>trim()\<close> of express-validator removes what the regular expression class
  \<^verbatim>\<open>\s\<close> matches from both ends. \<open>whitespace\<close> lists the UTF-8 texts of these characters:
  U+0009 to U+000D, U+0020, U+00A0, U+1680, U+2000 to U+200A, U+2028, U+2029, U+202F, U+205F,
  U+3000 and U+FEFF.
\<close>

definition whitespace :: "string list" where
  "whitespace =
     [[CHR 0x09], [CHR 0x0A], [CHR 0x0B], [CHR 0x0C], [CHR 0x0D], [CHR 0x20],
      [CHR 0xC2, CHR 0xA0], [CHR 0xE1, CHR 0x9A, CHR 0x80],
      [CHR 0xE2, CHR 0x80, CHR 0x80], [CHR 0xE2, CHR 0x80, CHR 0x81],
      [CHR 0xE2, CHR 0x80, CHR 0x82], [CHR 0xE2, CHR 0x80, CHR 0x83],
      [CHR 0xE2, CHR 0x80, CHR 0x84], [CHR 0xE2, CHR 0x80, CHR 0x85],
      [CHR 0xE2, CHR 0x80, CHR 0x86], [CHR 0xE2, CHR 0x80, CHR 0x87],
      [CHR 0xE2, CHR 0x80, CHR 0x88], [CHR 0xE2, CHR 0x80, CHR 0x89],
      [CHR 0xE2, CHR 0x80, CHR 0x8A], [CHR 0xE2, CHR 0x80, CHR 0xA8],
      [CHR 0xE2, CHR 0x80, CHR 0xA9], [CHR 0xE2, CHR 0x80, CHR 0xAF],
      [CHR 0xE2, CHR 0x81, CHR 0x9F], [CHR 0xE3, CHR 0x80, CHR 0x80],
      [CHR 0xEF, CHR 0xBB, CHR 0xBF]]"

text \<open>
  The characters of a UTF-8 text: every byte that is not a continuation byte (\<open>10xxxxxx\<close>)
  starts a character, and the continuation bytes after it belong to it.
\<close>

definition is_continuation :: "char \<Rightarrow> bool" where
  "is_continuation b \<longleftrightarrow> 128 \<le> (of_char b :: nat) \<and> (of_char b :: nat) < 192"

fun characters :: "string \<Rightarrow> string list" where
  "characters [] = []"
| "characters (b # bs) =
     (case characters bs of
        [] \<Rightarrow> [[b]]
      | g # gs \<Rightarrow> (case g of
                     [] \<Rightarrow> [b] # g # gs
                   | x # _ \<Rightarrow> if is_continuation x then (b # g) # gs else [b] # g # gs))"

definition isspace :: "string \<Rightarrow> bool" where
  "isspace ch \<longleftrightarrow> ch \<in> set whitespace"

definition trim :: "string \<Rightarrow> string" where
  "trim s = concat (rev (dropWhile isspace (rev (dropWhile isspace (characters s)))))"


subsection \<open>Cart routes (routes/cart.js, first module)\<close>

text \<open>
  \<^verbatim>\<open>POST /api/cart/items\<close>. An accepted request answers with the cart; \<open>Inr\<close> holds it as it
  is stored.
\<close>

definition post_cart_items ::
  "objectId \<Rightarrow> objectId \<Rightarrow> int \<Rightarrow> variant option \<Rightarrow> (nat \<Rightarrow> objectId) \<Rightarrow> date \<Rightarrow> store
     \<Rightarrow> (error + cart) \<times> store" where
  "post_cart_items uid productId quantity v fresh now st =
     (if quantity < 1 then (Inl ValidationFailed, st)
      else case products st productId of
        None \<Rightarrow> (Inl ProductNotFound, st)
      | Some p \<Rightarrow>
          if p_status p \<noteq> Active then (Inl ProductUnavailable, st)
          else if \<not> isInStock p quantity then (Inl OutOfStock, st)
          else
            (let (r, cs) = getOrCreateCart uid now (products st) (carts st);
                 st1 = st\<lparr>carts := cs\<rparr>
             in (case addItem productId v quantity (p_price p) fresh now (await r) of
                   Inl _ \<Rightarrow> (Inl ServerError, st1)
                 | Inr c \<Rightarrow> (Inr (depopulate c), store_cart uid c st1))))"

text \<open>
  \<^verbatim>\<open>PUT /api/cart/items/:itemId\<close>. \<^verbatim>\<open>Product.findById(item.product)\<close> finds the product
  under the reference's id when the reference is not \<^verbatim>\<open>null\<close>; on \<^verbatim>\<open>null\<close> it finds
  nothing, and \<^verbatim>\<open>product.isInStock\<close> throws.
\<close>

definition put_cart_item ::
  "objectId \<Rightarrow> objectId \<Rightarrow> int \<Rightarrow> date \<Rightarrow> store \<Rightarrow> (error + cart) \<times> store" where
  "put_cart_item uid itemId quantity now st =
     (if quantity < 0 then (Inl ValidationFailed, st)
      else
        let (r, cs) = getOrCreateCart uid now (products st) (carts st);
            st1 = st\<lparr>carts := cs\<rparr>;
            cart = await r
        in case find (\<lambda>i. ci_id i = itemId) (items cart) of
             None \<Rightarrow> (Inl CartItemNotFound, st1)
           | Some item \<Rightarrow>
               (case (if quantity > 0
                      then (case (case ci_product item of
                                    Missing _ \<Rightarrow> None
                                  | r \<Rightarrow> products st1 (ref_id r)) of
                              None \<Rightarrow> Some ServerError
                            | Some p \<Rightarrow> if \<not> isInStock p quantity then Some OutOfStock else None)
                      else None) of
                  Some e \<Rightarrow> (Inl e, st1)
                | None \<Rightarrow>
                    (case updateItemQuantity (ci_product item) (Some (ci_variant item)) quantity cart of
                       Inl _ \<Rightarrow> (Inl ServerError, st1)
                     | Inr c \<Rightarrow> (Inr (depopulate c), store_cart uid c st1))))"



subsection \<open>Order routes (routes/cart.js, second module)\<close>

text \<open>
  The body of \<^verbatim>\<open>POST /api/orders\<close>. \<open>address_fields_present\<close> stands for the twelve
  \<^verbatim>\<open>notEmpty\<close> checks on the shipping and billing address.
\<close>

record checkout_request =
  address_fields_present :: bool
  req_shipping_method :: string
  req_payment_method :: string

definition body_valid :: "checkout_request \<Rightarrow> bool" where
  "body_valid req \<longleftrightarrow>
     address_fields_present req \<and> trim (req_shipping_method req) \<noteq> [] \<and>
     trim (req_payment_method req) \<noteq> []"

text \<open>The loop "Validate all items are still available".\<close>

text \<open>
  What \<^verbatim>\<open>cartItem.product\<close> is for the loop: the product's document for a populated
  reference; \<^verbatim>\<open>null\<close>, or an id (which has no \<^verbatim>\<open>status\<close>), otherwise.
\<close>

definition product_of :: "(objectId \<rightharpoonup> product) \<Rightarrow> product_ref \<Rightarrow> product option" where
  "product_of ps r = (case r of Populated p \<Rightarrow> ps p | _ \<Rightarrow> None)"

fun check_lines :: "(objectId \<rightharpoonup> product) \<Rightarrow> cartItem list \<Rightarrow> error option" where
  "check_lines ps [] = None"
| "check_lines ps (cartItem # rest) =
     (case product_of ps (ci_product cartItem) of
        None \<Rightarrow> Some ProductUnavailable
      | Some p \<Rightarrow>
          if p_status p \<noteq> Active then Some ProductUnavailable
          else if \<not> isInStock p (ci_quantity cartItem) then Some OutOfStock
          else check_lines ps rest)"

text \<open>
  The document \<^verbatim>\<open>new Order(orderData)\<close>. The order data names no order number. The
  discount is computed without \<^verbatim>\<open>|| 0\<close>, so a coupon that has a code and no discount
  value yields \<^verbatim>\<open>NaN\<close>, which no \<^verbatim>\<open>Number\<close> path accepts: \<open>None\<close>.
\<close>

definition orderData :: "objectId \<Rightarrow> checkout_request \<Rightarrow> cart \<Rightarrow> order option" where
  "orderData uid req c =
     (let st = subtotal c;
          taxAmount = tax_amount c;
          shipCost = shippingCost c;
          hasCode = (case code (coupon c) of None \<Rightarrow> False | Some s \<Rightarrow> s \<noteq> []);
          discountAmount =
            (if hasCode
             then (case discount (coupon c) of
                     None \<Rightarrow> None
                   | Some d \<Rightarrow> Some (if c_type (coupon c) = Some Percentage then (st * d) / 100 else d))
             else Some 0)
      in case discountAmount of
           None \<Rightarrow> None
         | Some da \<Rightarrow>
             Some \<lparr>orderNumber = None, customer = uid,
                   o_items = map (\<lambda>item. \<lparr>oi_product = ref_id (ci_product item),
                                           oi_variant = ci_variant item,
                                           oi_quantity = ci_quantity item, oi_price = ci_price item,
                                           oi_total = ci_price item * of_int (ci_quantity item)\<rparr>)
                                 (items c),
                   o_subtotal = st, o_tax_amount = taxAmount, o_tax_rate = tax_rate c,
                   o_shipping_method = trim (req_shipping_method req), o_shipping_cost = shipCost,
                   o_addresses_present = address_fields_present req,
                   o_payment_method = trim (req_payment_method req),
                   o_payment_amount = st + taxAmount + shipCost - da,
                   o_discount_code = (if hasCode then code (coupon c) else None),
                   o_discount_amount = (if hasCode then da else 0),
                   o_discount_type =
                     (if hasCode then (case c_type (coupon c) of None \<Rightarrow> Fixed | Some t \<Rightarrow> t)
                      else Fixed),
                   o_total = st + taxAmount + shipCost - da,
                   o_status = Pending, timeline = [], isNew = True, statusModified = True\<rparr>)"

text \<open>\<^verbatim>\<open>Order.create(orderData)\<close>: build the document and save it.\<close>

definition Order_create :: "nat \<Rightarrow> date \<Rightarrow> order option \<Rightarrow> exn + order" where
  "Order_create count now data =
     (case data of None \<Rightarrow> Inl ValidatorError | Some d \<Rightarrow> order_save count now d)"

text \<open>The loop "Update product inventory".\<close>

fun reserve :: "cartItem list \<Rightarrow> (objectId \<rightharpoonup> product) \<Rightarrow> (objectId \<rightharpoonup> product)" where
  "reserve [] ps = ps"
| "reserve (item # rest) ps =
     reserve rest
       (findByIdAndUpdate_inc (ref_id (ci_product item)) (- ci_quantity item) (ci_quantity item)
          (ci_price item * of_int (ci_quantity item)) ps)"

text \<open>The loop "Restore inventory" of the two cancellation paths.\<close>

fun restore :: "orderItem list \<Rightarrow> (objectId \<rightharpoonup> product) \<Rightarrow> (objectId \<rightharpoonup> product)" where
  "restore [] ps = ps"
| "restore (item # rest) ps =
     restore rest
       (findByIdAndUpdate_inc (oi_product item) (oi_quantity item) (- oi_quantity item)
          (- (oi_price item * of_int (oi_quantity item))) ps)"

text \<open>
  \<^verbatim>\<open>POST /api/orders\<close> from the emptiness check on, for a cart document \<open>c\<close> already
  loaded. Nothing is rolled back when a later step throws.
\<close>

definition checkout_with_cart ::
  "objectId \<Rightarrow> checkout_request \<Rightarrow> objectId \<Rightarrow> date \<Rightarrow> cart \<Rightarrow> store \<Rightarrow> (error + order) \<times> store" where
  "checkout_with_cart uid req newId now c st =
     (if length (items c) = 0 then (Inl EmptyCart, st)
      else case check_lines (products st) (items c) of
        Some e \<Rightarrow> (Inl e, st)
      | None \<Rightarrow>
          (case Order_create (length (orders st)) now (orderData uid req c) of
             Inl _ \<Rightarrow> (Inl ServerError, st)
           | Inr order \<Rightarrow>
               (let st1 = st\<lparr>orders := orders st @ [(newId, order)]\<rparr>;
                    st2 = st1\<lparr>products := reserve (items c) (products st1)\<rparr>
                in (case clear c of
                      Inl _ \<Rightarrow> (Inl ServerError, st2)
                    | Inr c' \<Rightarrow> (Inr order, store_cart uid c' st2)))))"

text \<open>
  \<^verbatim>\<open>POST /api/orders\<close> as written: the cart is obtained by
  \<^verbatim>\<open>await Cart.getOrCreateCart(req.user.id).populate('items.product')\<close>, where \<^verbatim>\<open>populate\<close>
  is called on what \<^verbatim>\<open>getOrCreateCart\<close> returns, before the \<^verbatim>\<open>await\<close>.
\<close>

definition post_orders ::
  "objectId \<Rightarrow> checkout_request \<Rightarrow> objectId \<Rightarrow> date \<Rightarrow> store \<Rightarrow> (error + order) \<times> store" where
  "post_orders uid req newId now st =
     (if \<not> body_valid req then (Inl ValidationFailed, st)
      else
        (let (r, cs) = getOrCreateCart uid now (products st) (carts st);
             st1 = st\<lparr>carts := cs\<rparr>
         in (case populate r of
               Inl _ \<Rightarrow> (Inl ServerError, st1)
             | Inr r' \<Rightarrow> checkout_with_cart uid req newId now (await r') st1)))"

text \<open>
  Modelled from the spec: the middleware \<^verbatim>\<open>authorize\<close> (\<^verbatim>\<open>middleware/auth\<close>, not among the
  sources); the status update is a privileged operation, open to the roles the route lists.
\<close>

datatype role = User | Admin | Moderator

definition authorize :: "role list \<Rightarrow> role \<Rightarrow> bool" where
  "authorize roles r \<longleftrightarrow> r \<in> set roles"

definition replace_order :: "objectId \<Rightarrow> order \<Rightarrow> (objectId \<times> order) list \<Rightarrow> (objectId \<times> order) list" where
  "replace_order oid d os = map (\<lambda>(k, v). if k = oid then (k, d) else (k, v)) os"

text \<open>\<^verbatim>\<open>PUT /api/orders/:id/status\<close>\<close>

definition put_order_status ::
  "role \<Rightarrow> objectId \<Rightarrow> objectId \<Rightarrow> order_status \<Rightarrow> string option \<Rightarrow> date \<Rightarrow> store
     \<Rightarrow> (error + order) \<times> store" where
  "put_order_status r uid oid status note now st =
     (if \<not> authorize [Admin, Moderator] r then (Inl NotAuthorized, st)
      else case map_of (orders st) oid of
        None \<Rightarrow> (Inl OrderNotFound, st)
      | Some order0 \<Rightarrow>
          (let order1 = updateStatus status
                          (case note of None \<Rightarrow> [] | Some n \<Rightarrow> trim n) (Some uid) now order0
           in (case order_save (length (orders st)) now order1 of
                 Inl _ \<Rightarrow> (Inl ServerError, st)
               | Inr order \<Rightarrow>
                   (let st1 = st\<lparr>orders := replace_order oid order (orders st)\<rparr>;
                        st2 = (if status = Cancelled \<and> o_status order \<noteq> Cancelled
                               then st1\<lparr>products := restore (o_items order) (products st1)\<rparr>
                               else st1)
                    in (Inr order, st2)))))"

text \<open>\<^verbatim>\<open>PUT /api/orders/:id/cancel\<close>\<close>

definition put_order_cancel ::
  "objectId \<Rightarrow> objectId \<Rightarrow> string option \<Rightarrow> date \<Rightarrow> store \<Rightarrow> (error + order) \<times> store" where
  "put_order_cancel uid oid reason now st =
     (case map_of (orders st) oid of
        None \<Rightarrow> (Inl OrderNotFound, st)
      | Some order0 \<Rightarrow>
          if customer order0 \<noteq> uid then (Inl NotAuthorized, st)
          else if o_status order0 \<notin> {Pending, Confirmed} then (Inl InvalidTransition, st)
          else
            (let note = (case reason of
                           None \<Rightarrow> ''Cancelled by customer''
                         | Some s \<Rightarrow> if trim s = [] then ''Cancelled by customer'' else trim s);
                 order1 = updateStatus Cancelled note (Some uid) now order0
             in (case order_save (length (orders st)) now order1 of
                   Inl _ \<Rightarrow> (Inl ServerError, st)
                 | Inr order \<Rightarrow>
                     (Inr order,
                      st\<lparr>orders := replace_order oid order (orders st),
                         products := restore (o_items order) (products st)\<rparr>))))"


subsection \<open>Sequences of operations\<close>

text \<open>
  A status mutation as both order routes perform it: \<^verbatim>\<open>order.updateStatus(...)\<close> followed by
  \<^verbatim>\<open>await order.save()\<close>. A save that throws stores nothing.
\<close>

fun status_mutations ::
  "(order_status \<times> string \<times> objectId option \<times> date) list \<Rightarrow> nat \<Rightarrow> order \<Rightarrow> order" where
  "status_mutations [] count d = d"
| "status_mutations ((s, msg, actor, now) # rest) count d =
     status_mutations rest count
       (case order_save count now (updateStatus s msg actor now d) of
          Inl _ \<Rightarrow> d
        | Inr d' \<Rightarrow> d')"

text \<open>
  The calls that change a cart, and the cart after a sequence of them on one document:
  every method ends in \<^verbatim>\<open>this.save()\<close>, and a call that throws leaves the stored cart as it
  was.
\<close>

datatype cart_op =
    AddItem objectId "variant option" int rat "nat \<Rightarrow> objectId" date
  | UpdateItemQuantity product_ref "variant option" int
  | RemoveItem product_ref "variant option"
  | Clear
  | ApplyCoupon string rat coupon_type date date
  | RemoveCoupon

fun cart_method :: "cart_op \<Rightarrow> cart \<Rightarrow> exn + cart" where
  "cart_method (AddItem productId v quantity price fresh now) c =
     addItem productId v quantity price fresh now c"
| "cart_method (UpdateItemQuantity productId v quantity) c = updateItemQuantity productId v quantity c"
| "cart_method (RemoveItem productId v) c = removeItem productId v c"
| "cart_method Clear c = clear c"
| "cart_method (ApplyCoupon couponCode disc ty expires now) c =
     applyCoupon couponCode disc ty expires now c"
| "cart_method RemoveCoupon c = removeCoupon c"

fun persisted :: "cart \<Rightarrow> cart_op list \<Rightarrow> cart" where
  "persisted c [] = c"
| "persisted c (x # xs) = persisted (case cart_method x c of Inl _ \<Rightarrow> c | Inr c' \<Rightarrow> c') xs"

subsection \<open>Notions of the specification\<close>

text \<open>
  The discount amount in the words of the specification: zero when the cart has no coupon
  code, the percentage of the subtotal for a percentage coupon, the discount value for a
  fixed one.
\<close>

definition discountAmount :: "cart \<Rightarrow> rat" where
  "discountAmount c =
     (case code (coupon c) of
        None \<Rightarrow> 0
      | Some _ \<Rightarrow>
          (let d = (case discount (coupon c) of None \<Rightarrow> 0 | Some x \<Rightarrow> x)
           in if c_type (coupon c) = Some Percentage then subtotal c * d / 100 else d))"

text \<open>A cart without a coupon code carries no discount value other than the default.\<close>

definition coupon_wf :: "cart \<Rightarrow> bool" where
  "coupon_wf c \<longleftrightarrow> code (coupon c) \<noteq> None \<or> discount (coupon c) = None \<or> discount (coupon c) = Some 0"

text \<open>Units and money that the items of an order hold of one product.\<close>

definition order_units :: "objectId \<Rightarrow> orderItem list \<Rightarrow> int" where
  "order_units pid xs = sum_list (map oi_quantity (filter (\<lambda>i. oi_product i = pid) xs))"

definition order_money :: "objectId \<Rightarrow> orderItem list \<Rightarrow> rat" where
  "order_money pid xs =
     sum_list (map (\<lambda>i. oi_price i * of_int (oi_quantity i)) (filter (\<lambda>i. oi_product i = pid) xs))"

subsection \<open>Example data\<close>

definition no_variant :: variant where
  "no_variant = \<lparr>v_name = None, v_options = []\<rparr>"

definition ex_product :: product where
  "ex_product = \<lparr>p_price = 5, p_status = Active, trackInventory = True, inv_quantity = 3,
     allowBackorder = False, totalSold = 2, totalRevenue = 10\<rparr>"

definition ex_line :: cartItem where
  "ex_line = \<lparr>ci_id = 1, ci_product = ObjectId 10, ci_variant = no_variant, ci_quantity = 2,
     ci_price = 5, addedAt = 0\<rparr>"

definition ex_cart :: cart where
  "ex_cart = \<lparr>user = 7, items = [ex_line], coupon = empty_coupon, shippingMethod = ''standard'',
     shippingCost = 0, tax_amount = 0, tax_rate = 0, expiresAt = 99\<rparr>"

definition ex_req :: checkout_request where
  "ex_req = \<lparr>address_fields_present = True, req_shipping_method = ''standard'',
     req_payment_method = ''paypal''\<rparr>"

definition ex_order :: order where
  "ex_order = \<lparr>orderNumber = Some ''ORD-000001'', customer = 7,
     o_items = [\<lparr>oi_product = 10, oi_variant = no_variant, oi_quantity = 2, oi_price = 5,
                 oi_total = 10\<rparr>],
     o_subtotal = 10, o_tax_amount = 0, o_tax_rate = 0, o_shipping_method = ''standard'',
     o_shipping_cost = 0, o_addresses_present = True, o_payment_method = ''paypal'',
     o_payment_amount = 10, o_discount_code = None, o_discount_amount = 0,
     o_discount_type = Fixed, o_total = 10, o_status = Pending, timeline = [], isNew = False,
     statusModified = False\<rparr>"

definition ex_store :: store where
  "ex_store = \<lparr>products = [10 \<mapsto> ex_product], orders = [(100, ex_order)],
     carts = [7 \<mapsto> ex_cart]\<rparr>"

text \<open>Ids as the driver might generate them for user 7's lines: 1, 2, 3, ...\<close>

definition ex_ids :: "nat \<Rightarrow> nat \<Rightarrow> objectId" where
  "ex_ids base i = base + i"




section \<open>Order timeline\<close>

lemma order_valid_updateStatus [simp]:
  "order_valid (updateStatus s msg actor now d) = order_valid d"
  by (simp add: order_valid_def updateStatus_def)

lemma order_save_valid:
  "order_save count now d = Inr d' \<Longrightarrow> order_valid d'"
  by (auto simp: order_save_def order_valid_def pre_save_def Let_def split: if_splits)

lemma order_save_Inr_iff:
  "(\<exists>d'. order_save count now d = Inr d') \<longleftrightarrow> order_valid d"
  by (simp add: order_save_def)

lemma order_save_timeline:
  "order_save count now d = Inr d' \<Longrightarrow> prefix (timeline d) (timeline d')"
  by (auto simp: order_save_def pre_save_def Let_def split: if_splits)

lemma order_save_status:
  "order_save count now d = Inr d' \<Longrightarrow> o_status d' = o_status d"
  by (auto simp: order_save_def pre_save_def Let_def split: if_splits)

lemma order_save_items:
  "order_save count now d = Inr d' \<Longrightarrow> o_items d' = o_items d \<and> customer d' = customer d"
  by (auto simp: order_save_def pre_save_def Let_def split: if_splits)

lemma updateStatus_timeline:
  "timeline (updateStatus s msg actor now d) =
     timeline d @ [\<lparr>te_status = s, te_timestamp = now, te_note = Some msg, te_updatedBy = actor\<rparr>]"
  by (simp add: updateStatus_def)

lemma updateStatus_status [simp]:
  "o_status (updateStatus s msg actor now d) = s"
  by (simp add: updateStatus_def)

lemma updateStatus_items [simp]:
  "o_items (updateStatus s msg actor now d) = o_items d"
  "customer (updateStatus s msg actor now d) = customer d"
  by (simp_all add: updateStatus_def)

text \<open>One status mutation of a valid order is stored, and strictly extends the timeline.\<close>

lemma mutation_step:
  assumes "order_valid d"
  shows "\<exists>d'. order_save count now (updateStatus s msg actor now d) = Inr d' \<and> order_valid d' \<and>
           o_status d' = s \<and> o_items d' = o_items d \<and> customer d' = customer d \<and>
           strict_prefix (timeline d) (timeline d')"
proof -
  from assms have "order_valid (updateStatus s msg actor now d)" by simp
  then obtain d' where d': "order_save count now (updateStatus s msg actor now d) = Inr d'"
    using order_save_Inr_iff by blast
  have "prefix (timeline (updateStatus s msg actor now d)) (timeline d')"
    using d' by (rule order_save_timeline)
  then have "strict_prefix (timeline d) (timeline d')"
    by (auto simp: updateStatus_timeline prefix_def strict_prefix_def)
  moreover have "o_status d' = s"
    using order_save_status [OF d'] by simp
  moreover have "o_items d' = o_items d \<and> customer d' = customer d"
    using order_save_items [OF d'] by simp
  ultimately show ?thesis using d' order_save_valid [OF d'] by blast
qed

lemma status_mutations_timeline:
  "order_valid d \<Longrightarrow>
     prefix (timeline d) (timeline (status_mutations us count d)) \<and>
     length (timeline d) + length us \<le> length (timeline (status_mutations us count d))"
proof (induction us arbitrary: d)
  case Nil
  then show ?case by simp
next
  case (Cons u us)
  obtain s msg actor now where u: "u = (s, msg, actor, now)" by (cases u) auto
  from mutation_step [OF Cons.prems, of count now s msg actor]
  obtain d' where d': "order_save count now (updateStatus s msg actor now d) = Inr d'"
    and v: "order_valid d'" and sp: "strict_prefix (timeline d) (timeline d')" by blast
  from Cons.IH [OF v]
  have ih: "prefix (timeline d') (timeline (status_mutations us count d'))"
    "length (timeline d') + length us \<le> length (timeline (status_mutations us count d'))" by auto
  have l: "length (timeline d) < length (timeline d')"
    using sp by (metis prefix_length_less)
  have "prefix (timeline d) (timeline d')" using sp by (simp add: strict_prefix_def)
  with ih(1) have "prefix (timeline d) (timeline (status_mutations us count d'))"
    using prefix_order.trans by blast
  with ih(2) l show ?case by (simp add: u d')
qed

text \<open>
  A stored order whose status is changed to a different one gets two timeline entries from
  one mutation: the one \<open>updateStatus\<close> pushes and the one the pre-save hook pushes when it
  finds the status modified.
\<close>

lemma status_change_appends_two:
  assumes "order_valid d" "\<not> isNew d" "s \<noteq> o_status d"
  shows "order_save n now (updateStatus s msg actor now d) =
           Inr (d\<lparr>o_status := s,
                  timeline := timeline d @
                    [\<lparr>te_status = s, te_timestamp = now, te_note = Some msg, te_updatedBy = actor\<rparr>,
                     \<lparr>te_status = s, te_timestamp = now,
                       te_note = Some (''Status changed to '' @ status_name s), te_updatedBy = None\<rparr>],
                  isNew := False, statusModified := False\<rparr>)"
  using assms
  by (simp add: order_save_def updateStatus_def pre_save_def order_valid_def Let_def)

lemma ex_order_valid: "order_valid ex_order"
  by (simp add: order_valid_def ex_order_def orderItem_valid_def payment_methods_def)

text \<open>
  Claim C1 at a failing input. The store holds the pending order 100 with an empty timeline.
  An administrator sets it to confirmed through \<^verbatim>\<open>PUT /api/orders/:id/status\<close>: the stored
  order is confirmed and its timeline has two entries for this one status mutation, where the
  claim has exactly one entry appended.
\<close>

theorem status_update_enters_twice:
  "map_option o_status
     (map_of (orders (snd (put_order_status Admin 99 100 Confirmed (Some ''ok'') 2000 ex_store))) 100)
     = Some Confirmed \<and>
   map_option timeline
     (map_of (orders (snd (put_order_status Admin 99 100 Confirmed (Some ''ok'') 2000 ex_store))) 100)
     = Some [\<lparr>te_status = Confirmed, te_timestamp = 2000, te_note = Some ''ok'',
               te_updatedBy = Some 99\<rparr>,
             \<lparr>te_status = Confirmed, te_timestamp = 2000,
               te_note = Some ''Status changed to confirmed'', te_updatedBy = None\<rparr>]"
proof -
  have t: "trim ''ok'' = ''ok''" by code_simp
  have o: "map_of (orders ex_store) 100 = Some ex_order" by (simp add: ex_store_def)
  have f: "\<not> isNew ex_order" "Confirmed \<noteq> o_status ex_order" "timeline ex_order = []"
    by (simp_all add: ex_order_def)
  show ?thesis
    by (simp add: put_order_status_def authorize_def o t Let_def
        status_change_appends_two [OF ex_order_valid f(1,2)] f(3))
       (simp add: ex_store_def replace_order_def)
qed

section \<open>Cancellation and inventory\<close>

lemma findByIdAndUpdate_inc_lookup:
  "findByIdAndUpdate_inc pid dq ds dr ps k =
     (if k = pid
      then (case ps k of
              None \<Rightarrow> None
            | Some p \<Rightarrow> Some (p\<lparr>inv_quantity := inv_quantity p + dq, totalSold := totalSold p + ds,
                                 totalRevenue := totalRevenue p + dr\<rparr>))
      else ps k)"
  by (simp add: findByIdAndUpdate_inc_def split: option.splits)

text \<open>
  The restore loop, product by product: every stored product gets back the units its order
  items hold, and its sales counters go down by the same units and their money.
\<close>

lemma restore_lookup:
  "restore xs ps k =
     (case ps k of
        None \<Rightarrow> None
      | Some p \<Rightarrow> Some (p\<lparr>inv_quantity := inv_quantity p + order_units k xs,
                           totalSold := totalSold p - order_units k xs,
                           totalRevenue := totalRevenue p - order_money k xs\<rparr>))"
proof (induction xs arbitrary: ps)
  case Nil
  then show ?case by (simp add: order_units_def order_money_def split: option.splits)
next
  case (Cons x xs)
  show ?case
    by (simp add: Cons.IH findByIdAndUpdate_inc_lookup order_units_def order_money_def
        split: option.splits)
qed

text \<open>The privileged status update never writes to a product, whatever the new status.\<close>

lemma put_order_status_products:
  "products (snd (put_order_status r uid oid status msg now st)) = products st"
  by (simp add: put_order_status_def Let_def order_save_status
      split: option.splits sum.splits)

text \<open>
  The customer's cancellation of a stored, valid order of their own in state pending or
  confirmed is accepted, stores the order as cancelled and releases every item once.
\<close>

lemma put_order_cancel_releases:
  assumes "map_of (orders st) oid = Some d" "customer d = uid"
    "o_status d = Pending \<or> o_status d = Confirmed" "order_valid d"
  shows "\<exists>d'. fst (put_order_cancel uid oid reason now st) = Inr d' \<and> o_status d' = Cancelled \<and>
           products (snd (put_order_cancel uid oid reason now st)) = restore (o_items d) (products st)"
proof -
  let ?msg = "case reason of None \<Rightarrow> ''Cancelled by customer''
              | Some s \<Rightarrow> if trim s = [] then ''Cancelled by customer'' else trim s"
  from mutation_step [OF assms(4), of "length (orders st)" now Cancelled ?msg "Some uid"]
  obtain d' where d': "order_save (length (orders st)) now (updateStatus Cancelled ?msg (Some uid) now d) = Inr d'"
    and s: "o_status d' = Cancelled" and i: "o_items d' = o_items d" by blast
  show ?thesis
    using assms(1-3) d' s i by (auto simp: put_order_cancel_def Let_def)
qed

text \<open>
  Claim C2 at a failing input. The store holds one product (3 units in stock, 2 sold, revenue
  10) and one pending order of 2 units at price 5. A moderator or administrator sets the
  order to cancelled through \<^verbatim>\<open>PUT /api/orders/:id/status\<close>: the order is stored as
  cancelled, and the product is exactly as before. The route tests
  \<^verbatim>\<open>order.status !== 'cancelled'\<close> after \<open>updateStatus\<close> has already set the status, so
  its restore loop never runs. The customer's route, on the same store, returns the 2 units.
\<close>

theorem admin_cancel_skips_release:
  "map_option o_status (map_of (orders (snd (put_order_status Admin 99 100 Cancelled None 5000 ex_store))) 100)
     = Some Cancelled \<and>
   products (snd (put_order_status Admin 99 100 Cancelled None 5000 ex_store)) 10 = Some ex_product \<and>
   products (snd (put_order_cancel 7 100 None 5000 ex_store)) 10
     = Some (ex_product\<lparr>inv_quantity := 5, totalSold := 0, totalRevenue := 0\<rparr>)"
  by (simp add: put_order_status_def put_order_cancel_def authorize_def ex_store_def ex_order_def
      ex_product_def order_save_def order_valid_def orderItem_valid_def payment_methods_def
      updateStatus_def pre_save_def replace_order_def findByIdAndUpdate_inc_def Let_def)

text \<open>
  Claim C9. The customer's cancellation is accepted only for an order of their own whose
  status is pending or confirmed. For a stored order in any later state (processing, shipped,
  delivered, cancelled, refunded) the request is rejected and the whole store is left as it
  was, so the order's status and timeline and every product's inventory are unchanged; for
  the order's own customer the rejection is \<open>InvalidTransition\<close> (somebody else is turned
  away as \<open>NotAuthorized\<close> before the status is looked at).
\<close>

theorem customer_cancel_policy:
  "(fst (put_order_cancel uid oid reason now st) = Inr d' \<longrightarrow>
      (\<exists>d. map_of (orders st) oid = Some d \<and> customer d = uid \<and>
           (o_status d = Pending \<or> o_status d = Confirmed))) \<and>
   (map_of (orders st) oid = Some d \<and>
    o_status d \<in> {Processing, Shipped, Delivered, Cancelled, Refunded} \<longrightarrow>
      snd (put_order_cancel uid oid reason now st) = st \<and>
      isl (fst (put_order_cancel uid oid reason now st)) \<and>
      (customer d = uid \<longrightarrow> fst (put_order_cancel uid oid reason now st) = Inl InvalidTransition))"
proof -
  have a: "fst (put_order_cancel uid oid reason now st) = Inr d' \<longrightarrow>
      (\<exists>d. map_of (orders st) oid = Some d \<and> customer d = uid \<and>
           (o_status d = Pending \<or> o_status d = Confirmed))"
    by (auto simp: put_order_cancel_def Let_def split: option.splits if_splits sum.splits)
  have b: "map_of (orders st) oid = Some d \<and>
    o_status d \<in> {Processing, Shipped, Delivered, Cancelled, Refunded} \<longrightarrow>
      snd (put_order_cancel uid oid reason now st) = st \<and>
      isl (fst (put_order_cancel uid oid reason now st)) \<and>
      (customer d = uid \<longrightarrow> fst (put_order_cancel uid oid reason now st) = Inl InvalidTransition)"
    by (auto simp: put_order_cancel_def)
  from a b show ?thesis by blast
qed

theorem customer_cancel_policy_witness:
  "fst (put_order_cancel 7 100 None 5000 ex_store) =
     Inr (ex_order\<lparr>o_status := Cancelled,
            timeline := [\<lparr>te_status = Cancelled, te_timestamp = 5000,
                           te_note = Some ''Cancelled by customer'', te_updatedBy = Some 7\<rparr>,
                         \<lparr>te_status = Cancelled, te_timestamp = 5000,
                           te_note = Some ''Status changed to cancelled'', te_updatedBy = None\<rparr>]\<rparr>) \<and>
   map_of (orders ex_store) 100 = Some ex_order \<and> customer ex_order = 7 \<and>
   o_status ex_order = Pending \<and>
   map_of (orders (ex_store\<lparr>orders := [(100, ex_order\<lparr>o_status := Delivered\<rparr>)]\<rparr>)) 100
     = Some (ex_order\<lparr>o_status := Delivered\<rparr>) \<and>
   snd (put_order_cancel 7 100 None 5000 (ex_store\<lparr>orders := [(100, ex_order\<lparr>o_status := Delivered\<rparr>)]\<rparr>))
     = ex_store\<lparr>orders := [(100, ex_order\<lparr>o_status := Delivered\<rparr>)]\<rparr> \<and>
   fst (put_order_cancel 7 100 None 5000 (ex_store\<lparr>orders := [(100, ex_order\<lparr>o_status := Delivered\<rparr>)]\<rparr>))
     = Inl InvalidTransition"
proof -
  have r: "fst (put_order_cancel 7 100 None 5000 ex_store) =
     Inr (ex_order\<lparr>o_status := Cancelled,
            timeline := [\<lparr>te_status = Cancelled, te_timestamp = 5000,
                           te_note = Some ''Cancelled by customer'', te_updatedBy = Some 7\<rparr>,
                         \<lparr>te_status = Cancelled, te_timestamp = 5000,
                           te_note = Some ''Status changed to cancelled'', te_updatedBy = None\<rparr>]\<rparr>)"
    by (simp add: put_order_cancel_def ex_store_def ex_order_def order_save_def order_valid_def
        orderItem_valid_def payment_methods_def updateStatus_def pre_save_def Let_def)
  have m: "map_of (orders (ex_store\<lparr>orders := [(100, ex_order\<lparr>o_status := Delivered\<rparr>)]\<rparr>)) 100
     = Some (ex_order\<lparr>o_status := Delivered\<rparr>)"
    by simp
  have c: "customer (ex_order\<lparr>o_status := Delivered\<rparr>) = 7" by (simp add: ex_order_def)
  from customer_cancel_policy [of 7 100 None 5000
      "ex_store\<lparr>orders := [(100, ex_order\<lparr>o_status := Delivered\<rparr>)]\<rparr>" ex_order
      "ex_order\<lparr>o_status := Delivered\<rparr>"] m c
  have "snd (put_order_cancel 7 100 None 5000 (ex_store\<lparr>orders := [(100, ex_order\<lparr>o_status := Delivered\<rparr>)]\<rparr>))
     = ex_store\<lparr>orders := [(100, ex_order\<lparr>o_status := Delivered\<rparr>)]\<rparr> \<and>
   fst (put_order_cancel 7 100 None 5000 (ex_store\<lparr>orders := [(100, ex_order\<lparr>o_status := Delivered\<rparr>)]\<rparr>))
     = Inl InvalidTransition"
    by simp
  with r m show ?thesis by (simp add: ex_store_def ex_order_def)
qed

section \<open>Checkout\<close>

lemma clear_ok: "clear c = Inr (c\<lparr>items := [], coupon := empty_coupon\<rparr>)"
  by (simp add: clear_def cart_save_def)

text \<open>
  The order data carries no order number, and the validators run before the hook that would
  generate one: \<^verbatim>\<open>Order.create(orderData)\<close> throws for every cart and every request.
\<close>

lemma orderData_no_number: "orderData uid req c = Some od \<Longrightarrow> orderNumber od = None"
  by (auto simp: orderData_def Let_def split: option.splits)

lemma Order_create_throws: "Order_create n now (orderData uid req c) = Inl ValidatorError"
proof (cases "orderData uid req c")
  case None
  then show ?thesis by (simp add: Order_create_def)
next
  case (Some od)
  from orderData_no_number [OF Some] have "\<not> order_valid od" by (simp add: order_valid_def)
  with Some show ?thesis by (simp add: Order_create_def order_save_def)
qed

text \<open>So the handler, even given a loaded cart, never stores an order, reserves or clears.\<close>

lemma checkout_with_cart_never_completes:
  "isl (fst (checkout_with_cart uid req newId now c st)) \<and>
   snd (checkout_with_cart uid req newId now c st) = st"
  by (simp add: checkout_with_cart_def Order_create_throws split: option.splits)

text \<open>
  Claim C3 at a failing input. User 7 has a stored cart with one line, 2 units of product 10
  at price 5; the product is active with 3 units in stock, and the request is complete. The
  route answers with the server error and the store is as before: no order, no reservation,
  the cart still holds its line. The route calls \<^verbatim>\<open>populate\<close> on the promise that
  \<^verbatim>\<open>getOrCreateCart\<close> returns. Given the loaded cart, whose line passes the re-check, the
  rest of the handler ends the same way: \<^verbatim>\<open>Order.create\<close> fails the validation of the
  required order number, which the order data does not carry and the pre-save hook would
  only generate after validation.
\<close>

theorem checkout_never_creates_order:
  "post_orders 7 ex_req 200 1000 ex_store = (Inl ServerError, ex_store) \<and>
   check_lines (products ex_store) (items (populate_items (products ex_store) ex_cart)) = None \<and>
   checkout_with_cart 7 ex_req 200 1000 (populate_items (products ex_store) ex_cart) ex_store
     = (Inl ServerError, ex_store)"
proof -
  have b: "body_valid ex_req"
    unfolding body_valid_def ex_req_def by code_simp
  have p: "post_orders 7 ex_req 200 1000 ex_store = (Inl ServerError, ex_store)"
    using b by (simp add: post_orders_def getOrCreateCart_def ex_store_def)
  have i: "items (populate_items (products ex_store) ex_cart) = [ex_line\<lparr>ci_product := Populated 10\<rparr>]"
    by (simp add: populate_items_def ex_store_def ex_cart_def ex_line_def)
  have l: "check_lines (products ex_store) [ex_line\<lparr>ci_product := Populated 10\<rparr>] = None"
    by (simp add: product_of_def ex_store_def ex_line_def ex_product_def isInStock_def)
  have c: "checkout_with_cart 7 ex_req 200 1000 (populate_items (products ex_store) ex_cart) ex_store
     = (Inl ServerError, ex_store)"
    using l by (simp add: checkout_with_cart_def i Order_create_throws del: check_lines.simps)
  from p l c show ?thesis by (simp add: i)
qed

lemma checkout_empty_cart:
  "items c = [] \<Longrightarrow> checkout_with_cart uid req newId now c st = (Inl EmptyCart, st)"
  by (simp add: checkout_with_cart_def)

text \<open>
  The route as written never reaches its emptiness check: whatever the cart, a request
  whose body passes validation ends in the catch block, with no order stored and no product
  touched.
\<close>

lemma post_orders_always_throws:
  "fst (post_orders uid req newId now st) = Inl (if body_valid req then ServerError else ValidationFailed) \<and>
   products (snd (post_orders uid req newId now st)) = products st \<and>
   orders (snd (post_orders uid req newId now st)) = orders st"
  by (simp add: post_orders_def getOrCreateCart_def Let_def split: option.splits)

text \<open>
  Claim C8 at a failing input. User 7 has a stored cart with no items and sends a complete
  checkout request. \<^verbatim>\<open>Cart.getOrCreateCart(...)\<close> is an \<^verbatim>\<open>async\<close> function, so the
  route calls \<^verbatim>\<open>populate\<close> on a promise; the \<^verbatim>\<open>TypeError\<close> is caught and answered with
  the server error, not with \<open>EmptyCart\<close>. The store is unchanged, as the claim says. The
  emptiness check itself, reached with a loaded cart, would answer \<open>EmptyCart\<close>.
\<close>

theorem empty_cart_checkout_server_error:
  "post_orders 7 ex_req 200 5000 (ex_store\<lparr>carts := [7 \<mapsto> new_cart 7 0]\<rparr>)
     = (Inl ServerError, ex_store\<lparr>carts := [7 \<mapsto> new_cart 7 0]\<rparr>) \<and>
   checkout_with_cart 7 ex_req 200 5000 (new_cart 7 0) (ex_store\<lparr>carts := [7 \<mapsto> new_cart 7 0]\<rparr>)
     = (Inl EmptyCart, ex_store\<lparr>carts := [7 \<mapsto> new_cart 7 0]\<rparr>)"
proof -
  have "body_valid ex_req"
    unfolding body_valid_def ex_req_def trim_def isspace_def by code_simp
  then show ?thesis
    by (simp add: post_orders_def getOrCreateCart_def checkout_with_cart_def new_cart_def)
qed

section \<open>Cart\<close>

subsection \<open>Sums\<close>

lemma foldl_plus_sum_list:
  "foldl (\<lambda>sum x. sum + f x) a xs = a + sum_list (map f xs)"
  by (induction xs arbitrary: a) (simp_all add: add.assoc)

lemma subtotal_sum: "subtotal c = sum_list (map (\<lambda>i. ci_price i * of_int (ci_quantity i)) (items c))"
  by (simp add: subtotal_def foldl_plus_sum_list)

lemma itemCount_sum: "itemCount c = sum_list (map ci_quantity (items c))"
  by (simp add: itemCount_def foldl_plus_sum_list)

subsection \<open>What every method keeps\<close>

lemma cart_save_Inr: "cart_save c = Inr c' \<Longrightarrow> c' = c \<and> list_all cartItem_valid (items c)"
  by (auto simp: cart_save_def split: if_splits)

lemma addItem_doc_coupon:
  "addItem_doc productId v q pr fresh now c = Inr d \<Longrightarrow> coupon d = coupon c"
  by (auto simp: addItem_doc_def split: sum.splits option.splits)

lemma updateItemQuantity_doc_coupon:
  "updateItemQuantity_doc productId v q c = Inr d \<Longrightarrow> coupon d = coupon c"
  by (auto simp: updateItemQuantity_doc_def split: sum.splits option.splits if_splits)

text \<open>A method that returns has stored a cart whose lines pass the validators.\<close>

lemma cart_method_valid:
  "cart_method x c = Inr c' \<Longrightarrow> list_all cartItem_valid (items c')"
  by (cases x)
     (auto simp: addItem_def updateItemQuantity_def removeItem_def clear_def applyCoupon_def
        removeCoupon_def split: sum.splits dest: cart_save_Inr)

lemma cart_method_coupon_wf:
  assumes "cart_method x c = Inr c'" "coupon_wf c"
  shows "coupon_wf c'"
proof (cases x)
  case (AddItem productId v q pr fresh now)
  with assms(1) obtain d where "addItem_doc productId v q pr fresh now c = Inr d" "c' = d"
    by (auto simp: addItem_def split: sum.splits dest: cart_save_Inr)
  with assms(2) show ?thesis by (simp add: coupon_wf_def addItem_doc_coupon)
next
  case (UpdateItemQuantity productId v q)
  with assms(1) obtain d where "updateItemQuantity_doc productId v q c = Inr d" "c' = d"
    by (auto simp: updateItemQuantity_def split: sum.splits dest: cart_save_Inr)
  with assms(2) show ?thesis by (simp add: coupon_wf_def updateItemQuantity_doc_coupon)
next
  case (RemoveItem productId v)
  with assms show ?thesis
    by (auto simp: removeItem_def coupon_wf_def split: sum.splits dest: cart_save_Inr)
next
  case Clear
  with assms show ?thesis
    by (auto simp: clear_def coupon_wf_def empty_coupon_def dest: cart_save_Inr)
next
  case (ApplyCoupon k disc ty expires now)
  with assms show ?thesis
    by (auto simp: applyCoupon_def coupon_wf_def dest: cart_save_Inr)
next
  case RemoveCoupon
  with assms show ?thesis
    by (auto simp: removeCoupon_def coupon_wf_def empty_coupon_def dest: cart_save_Inr)
qed

lemma coupon_wf_new: "coupon_wf (new_cart userId now)"
  by (simp add: coupon_wf_def new_cart_def)

lemma coupon_wf_persisted: "coupon_wf c \<Longrightarrow> coupon_wf (persisted c ops)"
proof (induction ops arbitrary: c)
  case Nil
  then show ?case by simp
next
  case (Cons x xs)
  show ?case
  proof (cases "cart_method x c")
    case (Inl e)
    with Cons show ?thesis by simp
  next
    case (Inr c')
    with Cons show ?thesis by (simp add: cart_method_coupon_wf)
  qed
qed

text \<open>
  The bound of the schema on a line, 1 to 100, holds of every cart that a sequence of
  method calls leaves stored.
\<close>

lemma persisted_valid:
  "list_all cartItem_valid (items c) \<Longrightarrow> list_all cartItem_valid (items (persisted c ops))"
proof (induction ops arbitrary: c)
  case Nil
  then show ?case by simp
next
  case (Cons x xs)
  show ?case
  proof (cases "cart_method x c")
    case (Inl e)
    with Cons show ?thesis by simp
  next
    case (Inr c')
    from cart_method_valid [OF Inr] Cons.IH Inr show ?thesis by simp
  qed
qed

subsection \<open>Totals\<close>

text \<open>
  Claim C4. For a cart with no discount value outside a coupon, the derived total is
  subtotal + shippingCost + tax.amount - discountAmount, with the discount amount of the
  specification (a percentage of the subtotal, a fixed value, or zero without a coupon);
  the subtotal is the sum of price times quantity over the lines. Every cart reached from a
  new cart by the cart's methods is such a cart.
\<close>

theorem cart_total_formula:
  "(coupon_wf c \<longrightarrow> total c = subtotal c + shippingCost c + tax_amount c - discountAmount c) \<and>
   subtotal c = sum_list (map (\<lambda>i. ci_price i * of_int (ci_quantity i)) (items c)) \<and>
   coupon_wf (persisted (new_cart userId t) ops)"
proof -
  have a: "coupon_wf c \<longrightarrow> total c = subtotal c + shippingCost c + tax_amount c - discountAmount c"
    by (auto simp: coupon_wf_def total_def discountAmount_def Let_def split: option.splits)
  have b: "coupon_wf (persisted (new_cart userId t) ops)"
    by (simp add: coupon_wf_persisted coupon_wf_new)
  from a b subtotal_sum [of c] show ?thesis by blast
qed

theorem cart_total_formula_witness:
  "coupon_wf (ex_cart\<lparr>items := [ex_line\<lparr>ci_quantity := 20\<rparr>],
                      coupon := \<lparr>code = Some ''WELCOME10'', discount = Some 10,
                                 c_type = Some Percentage, appliedAt = Some 0, c_expiresAt = Some 1\<rparr>,
                      shippingCost := 7, tax_amount := 3\<rparr>) \<and>
   subtotal (ex_cart\<lparr>items := [ex_line\<lparr>ci_quantity := 20\<rparr>],
                      coupon := \<lparr>code = Some ''WELCOME10'', discount = Some 10,
                                 c_type = Some Percentage, appliedAt = Some 0, c_expiresAt = Some 1\<rparr>,
                      shippingCost := 7, tax_amount := 3\<rparr>) = 100 \<and>
   discountAmount (ex_cart\<lparr>items := [ex_line\<lparr>ci_quantity := 20\<rparr>],
                      coupon := \<lparr>code = Some ''WELCOME10'', discount = Some 10,
                                 c_type = Some Percentage, appliedAt = Some 0, c_expiresAt = Some 1\<rparr>,
                      shippingCost := 7, tax_amount := 3\<rparr>) = 10 \<and>
   total (ex_cart\<lparr>items := [ex_line\<lparr>ci_quantity := 20\<rparr>],
                      coupon := \<lparr>code = Some ''WELCOME10'', discount = Some 10,
                                 c_type = Some Percentage, appliedAt = Some 0, c_expiresAt = Some 1\<rparr>,
                      shippingCost := 7, tax_amount := 3\<rparr>) = 100"
proof -
  let ?c = "ex_cart\<lparr>items := [ex_line\<lparr>ci_quantity := 20\<rparr>],
                      coupon := \<lparr>code = Some ''WELCOME10'', discount = Some 10,
                                 c_type = Some Percentage, appliedAt = Some 0, c_expiresAt = Some 1\<rparr>,
                      shippingCost := 7, tax_amount := 3\<rparr>"
  have w: "coupon_wf ?c" by (simp add: coupon_wf_def)
  have s: "subtotal ?c = 100" by (simp add: subtotal_def ex_line_def)
  have d: "discountAmount ?c = 10" by (simp add: discountAmount_def s)
  from cart_total_formula [of ?c 7 0 "[]"] w
  have "total ?c = subtotal ?c + shippingCost ?c + tax_amount ?c - discountAmount ?c" by blast
  then have "total ?c = 100" by (simp add: s d)
  with w s d show ?thesis by blast
qed

subsection \<open>The line test on a loaded cart\<close>

text \<open>
  A cart that \<^verbatim>\<open>getOrCreateCart\<close> has found comes with its lines populated. Against the id
  string of a request the line test is then false on a line whose product is stored, and
  throws on a line whose product is gone; it never holds.
\<close>

lemma same_line_loaded:
  "item \<in> set (items (populate_items ps c)) \<Longrightarrow>
     same_line (ObjectId productId) v item = Inr False \<or>
     same_line (ObjectId productId) v item = Inl TypeError"
  by (auto simp: populate_items_def same_line_def split: option.splits)

lemma findIndex_never:
  "(\<And>x. x \<in> set xs \<Longrightarrow> P x = Inr False \<or> P x = Inl TypeError) \<Longrightarrow>
     findIndex P xs = Inr None \<or> findIndex P xs = Inl TypeError"
proof (induction xs)
  case Nil
  then show ?case by simp
next
  case (Cons x xs)
  from Cons.prems have x: "P x = Inr False \<or> P x = Inl TypeError" by simp
  from Cons.prems have "findIndex P xs = Inr None \<or> findIndex P xs = Inl TypeError"
    by (intro Cons.IH) simp
  with x show ?case by auto
qed

text \<open>
  So \<^verbatim>\<open>POST /api/cart/items\<close> never merges: a request it accepts on a stored cart stores
  that cart with one more line, the new one at the end, whatever lines the cart had.
\<close>

lemma post_cart_items_appends:
  assumes "post_cart_items uid productId q v fresh now st = (Inr c', st')" "carts st uid = Some c"
  shows "\<exists>p. products st productId = Some p \<and>
           items c' = items (depopulate c) @
             [\<lparr>ci_id = fresh 0, ci_product = ObjectId productId, ci_variant = cast_variant fresh v,
               ci_quantity = q, ci_price = p_price p, addedAt = now\<rparr>] \<and>
           carts st' uid = Some c'"
proof -
  from assms(1) obtain p where p: "products st productId = Some p"
    by (auto simp: post_cart_items_def split: if_splits option.splits)
  let ?l = "populate_items (products st) c"
  from assms p obtain d where d: "addItem productId v q (p_price p) fresh now ?l = Inr d"
    and r: "c' = depopulate d" "st' = store_cart uid d st"
    by (auto simp: post_cart_items_def getOrCreateCart_def Let_def
        split: if_splits option.splits sum.splits)
  have "findIndex (same_line (ObjectId productId) v) (items ?l) = Inr None \<or>
        findIndex (same_line (ObjectId productId) v) (items ?l) = Inl TypeError"
    by (rule findIndex_never) (rule same_line_loaded)
  with d have "items d = items ?l @
             [\<lparr>ci_id = fresh 0, ci_product = ObjectId productId, ci_variant = cast_variant fresh v,
               ci_quantity = q, ci_price = p_price p, addedAt = now\<rparr>]"
    by (auto simp: addItem_def addItem_doc_def split: sum.splits dest: cart_save_Inr)
  then have "items (depopulate d) = items (depopulate c) @
             [\<lparr>ci_id = fresh 0, ci_product = ObjectId productId, ci_variant = cast_variant fresh v,
               ci_quantity = q, ci_price = p_price p, addedAt = now\<rparr>]"
    by (simp add: depopulate_def populate_items_def comp_def split: option.splits)
  with p r show ?thesis by (auto simp: store_cart_def)
qed

lemma ex_first_add:
  "post_cart_items 7 10 2 None (ex_ids 1) 0 (ex_store\<lparr>carts := [7 \<mapsto> new_cart 7 0]\<rparr>) =
     (Inr ((new_cart 7 0)\<lparr>items := [ex_line]\<rparr>),
      ex_store\<lparr>carts := [7 \<mapsto> (new_cart 7 0)\<lparr>items := [ex_line]\<rparr>]\<rparr>)"
  by (simp add: post_cart_items_def getOrCreateCart_def populate_items_def depopulate_def
      addItem_def addItem_doc_def cart_save_def cast_variant_def store_cart_def cartItem_valid_def
      ex_store_def ex_product_def ex_line_def ex_ids_def no_variant_def isInStock_def new_cart_def)

lemma ex_second_add:
  "post_cart_items 7 10 3 None (ex_ids 2) 1
       (ex_store\<lparr>carts := [7 \<mapsto> (new_cart 7 0)\<lparr>items := [ex_line]\<rparr>]\<rparr>) =
     (Inr ((new_cart 7 0)\<lparr>items := [ex_line, ex_line\<lparr>ci_id := 2, ci_quantity := 3, addedAt := 1\<rparr>]\<rparr>),
      ex_store\<lparr>carts := [7 \<mapsto> (new_cart 7 0)
         \<lparr>items := [ex_line, ex_line\<lparr>ci_id := 2, ci_quantity := 3, addedAt := 1\<rparr>]\<rparr>]\<rparr>)"
  by (simp add: post_cart_items_def getOrCreateCart_def populate_items_def depopulate_def
      addItem_def addItem_doc_def same_line_def cart_save_def cast_variant_def store_cart_def
      cartItem_valid_def ex_store_def ex_product_def ex_line_def ex_ids_def no_variant_def
      isInStock_def new_cart_def)

text \<open>
  Claim C5 at a failing input: the example of the claim. User 7 has a new cart; product 10 is
  active with 3 units in stock. \<^verbatim>\<open>POST /api/cart/items\<close> for product 10 without variant
  and 2 units is followed by the same request for 3 units. Both are accepted, and the stored
  cart has two lines of product 10, of 2 and of 3 units, where the claim has a single line of
  5. In the second request the cart is loaded with its line populated, so the line's
  \<^verbatim>\<open>product.toString()\<close> is not the id string of the request, and the line's variant is an
  object while the request's is \<^verbatim>\<open>undefined\<close>.
\<close>

theorem repeated_add_stores_two_lines:
  "\<not> isl (fst (post_cart_items 7 10 3 None (ex_ids 2) 1
       (snd (post_cart_items 7 10 2 None (ex_ids 1) 0 (ex_store\<lparr>carts := [7 \<mapsto> new_cart 7 0]\<rparr>))))) \<and>
   map_option items (carts (snd (post_cart_items 7 10 3 None (ex_ids 2) 1
       (snd (post_cart_items 7 10 2 None (ex_ids 1) 0 (ex_store\<lparr>carts := [7 \<mapsto> new_cart 7 0]\<rparr>))))) 7)
     = Some [ex_line, ex_line\<lparr>ci_id := 2, ci_quantity := 3, addedAt := 1\<rparr>]"
  using ex_first_add ex_second_add by simp

subsection \<open>Setting the quantity of a line\<close>

lemma ex_set_second:
  "put_cart_item 7 2 1 5000
       (ex_store\<lparr>carts := [7 \<mapsto> (new_cart 7 0)
          \<lparr>items := [ex_line, ex_line\<lparr>ci_id := 2, ci_quantity := 3, addedAt := 1\<rparr>]\<rparr>]\<rparr>) =
     (Inr ((new_cart 7 0)\<lparr>items := [ex_line\<lparr>ci_quantity := 1\<rparr>,
                                      ex_line\<lparr>ci_id := 2, ci_quantity := 3, addedAt := 1\<rparr>]\<rparr>),
      ex_store\<lparr>carts := [7 \<mapsto> (new_cart 7 0)
         \<lparr>items := [ex_line\<lparr>ci_quantity := 1\<rparr>,
                    ex_line\<lparr>ci_id := 2, ci_quantity := 3, addedAt := 1\<rparr>]\<rparr>]\<rparr>)"
  by (simp add: put_cart_item_def getOrCreateCart_def populate_items_def depopulate_def
      updateItemQuantity_def updateItemQuantity_doc_def same_line_def cart_save_def store_cart_def
      cartItem_valid_def ex_store_def ex_product_def ex_line_def no_variant_def isInStock_def
      new_cart_def)

lemma ex_set_zero_gone:
  "put_cart_item 7 1 0 5000 (ex_store\<lparr>products := Map.empty\<rparr>)
     = (Inl ServerError, ex_store\<lparr>products := Map.empty\<rparr>)"
  by (simp add: put_cart_item_def getOrCreateCart_def populate_items_def updateItemQuantity_def
      updateItemQuantity_doc_def same_line_def ex_store_def ex_cart_def ex_line_def)

text \<open>
  Claim C6 at two failing inputs. First, the cart the two requests of claim C5 leave stored:
  two lines of product 10 without variant, line 1 of 2 units and line 2 of 3 units.
  \<^verbatim>\<open>PUT /api/cart/items/2\<close> with quantity 1 is accepted, and in the stored cart line 1 has 1
  unit while line 2 still has 3: \<open>updateItemQuantity\<close> looks the line up by product and
  variant and takes the first it finds. Second, a cart with one line whose product has been
  deleted: \<^verbatim>\<open>PUT /api/cart/items/1\<close> with quantity 0 ends in the catch block, because the
  populated reference is \<^verbatim>\<open>null\<close> and \<^verbatim>\<open>toString\<close> is called on it; the line stays.
\<close>

theorem set_quantity_misses_line:
  "map_option (map ci_quantity) (map_option items
      (carts (snd (put_cart_item 7 2 1 5000
         (ex_store\<lparr>carts := [7 \<mapsto> (new_cart 7 0)
            \<lparr>items := [ex_line, ex_line\<lparr>ci_id := 2, ci_quantity := 3, addedAt := 1\<rparr>]\<rparr>]\<rparr>))) 7))
     = Some [1, 3] \<and>
   put_cart_item 7 1 0 5000 (ex_store\<lparr>products := Map.empty\<rparr>)
     = (Inl ServerError, ex_store\<lparr>products := Map.empty\<rparr>)"
  using ex_set_second ex_set_zero_gone by (simp add: ex_line_def)

subsection \<open>The maximum of a line\<close>




subsection \<open>Coupons\<close>






lemma ex_depopulate: "depopulate ex_cart = ex_cart"
  by (simp add: depopulate_def ex_cart_def ex_line_def)



end
